theory Spec2Isabelle
  imports Complex_Main "HOL-Library.Word"
begin

section \<open>Data model\<close>

text \<open>
  A shallow embedding of the HexaURL validation library (TypeScript).

  \<^item> A JavaScript \<open>number\<close> is modelled by an exact rational. The library only multiplies
    a byte size by 4, divides by 3, takes a minimum and compares with string lengths. For
    integers below \<open>2 ^ 50\<close> the product is exact in IEEE double arithmetic and the rounded
    quotient lies on the same side of every integer as the exact quotient, so each
    comparison of the source has the truth value computed here. \<open>NaN\<close> and the infinities
    are outside the model.
  \<^item> A JavaScript string is a sequence of UTF-16 code units; \<open>input.length\<close> is the number
    of code units. A character outside the Basic Multilingual Plane is two code units
    (a surrogate pair).
  \<^item> A thrown exception is a value of type \<open>thrown\<close>; a function that may throw returns
    \<open>thrown + 'a\<close>, with \<open>Inl\<close> for the exception.
\<close>

type_synonym number = rat
type_synonym codeUnit = "16 word"
type_synonym jsstring = "codeUnit list"

text \<open>String literals of the source are ASCII; \<open>js\<close> embeds them code unit by code unit.\<close>

definition js :: "string \<Rightarrow> jsstring" where
  "js s = map of_char s"

text \<open>\<open>error.ts\<close>: the error codes, in the order of the enum.\<close>

datatype HexaUrlErrorCode =
    StringTooLong
  | StringTooShort
  | BytesTooLong
  | BytesTooShort
  | InvalidCharacter
  | InvalidConfig
  | InvalidLength
  | LeadingTrailingHyphen
  | LeadingTrailingUnderscore
  | ConsecutiveHyphens
  | ConsecutiveUnderscores
  | AdjacentHyphenUnderscore

text \<open>
  What the library throws: a plain \<open>Error\<close> with its message (the configuration
  constructor), or a \<open>HexaUrlError\<close> with its code (the validation engine). The message of
  a \<open>HexaUrlError\<close> is a template rendered from numbers and is not modelled.
\<close>

datatype thrown = Error string | HexaUrlError HexaUrlErrorCode

text \<open>\<open>config.ts\<close>\<close>

datatype IdentifierComposition =
    Alphanumeric
  | AlphanumericHyphen
  | AlphanumericUnderscore
  | AlphanumericHyphenUnderscore

record DelimiterRules =
  allowLeadingTrailingHyphens :: bool
  allowLeadingTrailingUnderscores :: bool
  allowConsecutiveHyphens :: bool
  allowConsecutiveUnderscores :: bool
  allowAdjacentHyphenUnderscore :: bool

text \<open>\<open>Partial<DelimiterRules>\<close>: every key may be missing (\<open>None\<close>).\<close>

record PartialDelimiterRules =
  optAllowLeadingTrailingHyphens :: "bool option"
  optAllowLeadingTrailingUnderscores :: "bool option"
  optAllowConsecutiveHyphens :: "bool option"
  optAllowConsecutiveUnderscores :: "bool option"
  optAllowAdjacentHyphenUnderscore :: "bool option"

text \<open>
  An optional property of type \<open>T | null\<close> is missing (\<open>Undefined\<close>), \<open>null\<close> or a value.
  The operator \<open>??\<close> takes its right operand exactly when the left one is \<open>undefined\<close> or
  \<open>null\<close>.
\<close>

datatype 'a nullable = Undefined | Null | Val 'a

fun orDefault :: "'a nullable \<Rightarrow> 'a \<Rightarrow> 'a" where
  "orDefault (Val v) d = v"
| "orDefault Undefined d = d"
| "orDefault Null d = d"

fun orNull :: "'a nullable \<Rightarrow> 'a option" where
  "orNull (Val v) = Some v"
| "orNull Undefined = None"
| "orNull Null = None"

record ConfigOptions =
  optMinLength :: "number nullable"
  optMaxLength :: "number nullable"
  optIdentifier :: "IdentifierComposition nullable"
  optDelimiter :: "DelimiterRules nullable"

text \<open>The fields of class \<open>Config\<close>; \<open>null\<close> is \<open>None\<close>.\<close>

record Config =
  minLength :: "number option"
  maxLength :: "number option"
  "identifier" :: IdentifierComposition
  delimiter :: "DelimiterRules option"

definition DEFAULT_MIN_LENGTH :: number where
  "DEFAULT_MIN_LENGTH = 3"

text \<open>The private method \<open>Config.validate\<close>, run by the constructor.\<close>

definition Config_validate :: "Config \<Rightarrow> thrown + unit" where
  "Config_validate c =
     (case minLength c of
        None \<Rightarrow> Inr ()
      | Some mn \<Rightarrow>
          (case maxLength c of
             None \<Rightarrow> Inr ()
           | Some mx \<Rightarrow>
               if mn > mx
               then Inl (Error ''Minimum length cannot be greater than maximum length'')
               else Inr ()))"

text \<open>\<open>new Config(minLength, maxLength, identifier, delimiter)\<close> with all four arguments given.\<close>

definition newConfig ::
  "number option \<Rightarrow> number option \<Rightarrow> IdentifierComposition \<Rightarrow> DelimiterRules option
     \<Rightarrow> thrown + Config" where
  "newConfig mn mx i d =
     (let c = \<lparr>minLength = mn, maxLength = mx, identifier = i, delimiter = d\<rparr>
      in case Config_validate c of Inl e \<Rightarrow> Inl e | Inr u \<Rightarrow> Inr c)"

definition createAllowedDelimiterRules :: DelimiterRules where
  "createAllowedDelimiterRules =
     \<lparr>allowLeadingTrailingHyphens = True,
      allowLeadingTrailingUnderscores = True,
      allowConsecutiveHyphens = True,
      allowConsecutiveUnderscores = True,
      allowAdjacentHyphenUnderscore = True\<rparr>"

text \<open>\<open>createDelimiterRules(o)\<close>: all flags false, then the keys of \<open>o\<close> spread over them.\<close>

definition createDelimiterRules :: "PartialDelimiterRules \<Rightarrow> DelimiterRules" where
  "createDelimiterRules opt =
     \<lparr>allowLeadingTrailingHyphens =
        (case optAllowLeadingTrailingHyphens opt of None \<Rightarrow> False | Some b \<Rightarrow> b),
      allowLeadingTrailingUnderscores =
        (case optAllowLeadingTrailingUnderscores opt of None \<Rightarrow> False | Some b \<Rightarrow> b),
      allowConsecutiveHyphens =
        (case optAllowConsecutiveHyphens opt of None \<Rightarrow> False | Some b \<Rightarrow> b),
      allowConsecutiveUnderscores =
        (case optAllowConsecutiveUnderscores opt of None \<Rightarrow> False | Some b \<Rightarrow> b),
      allowAdjacentHyphenUnderscore =
        (case optAllowAdjacentHyphenUnderscore opt of None \<Rightarrow> False | Some b \<Rightarrow> b)\<rparr>"

text \<open>The default argument \<open>{}\<close> of \<open>createDelimiterRules\<close> and of \<open>Config.create\<close>.\<close>

definition noOverrides :: PartialDelimiterRules where
  "noOverrides =
     \<lparr>optAllowLeadingTrailingHyphens = None,
      optAllowLeadingTrailingUnderscores = None,
      optAllowConsecutiveHyphens = None,
      optAllowConsecutiveUnderscores = None,
      optAllowAdjacentHyphenUnderscore = None\<rparr>"

definition noOptions :: ConfigOptions where
  "noOptions =
     \<lparr>optMinLength = Undefined, optMaxLength = Undefined,
      optIdentifier = Undefined, optDelimiter = Undefined\<rparr>"

definition Config_create :: "ConfigOptions \<Rightarrow> thrown + Config" where
  "Config_create options =
     newConfig
       (Some (orDefault (optMinLength options) DEFAULT_MIN_LENGTH))
       (orNull (optMaxLength options))
       (orDefault (optIdentifier options) AlphanumericHyphen)
       (orNull (optDelimiter options))"

definition Config_minimal :: "thrown + Config" where
  "Config_minimal =
     newConfig None None AlphanumericHyphenUnderscore (Some createAllowedDelimiterRules)"

definition createConfig :: "ConfigOptions \<Rightarrow> thrown + Config" where
  "createConfig o' = Config_create o'"

section \<open>Regular expressions of the validation module\<close>

text \<open>
  The patterns of the source all have the shape \<open>^[class]+$\<close> or \<open>^[class]*$\<close>, with no
  flags: the whole input, code unit by code unit, lies in the class, and \<open>+\<close> asks for
  at least one code unit.
\<close>

datatype classItem = Range codeUnit codeUnit | Single codeUnit

fun inItem :: "codeUnit \<Rightarrow> classItem \<Rightarrow> bool" where
  "inItem c (Range lo hi) = (lo \<le> c \<and> c \<le> hi)"
| "inItem c (Single x) = (c = x)"

definition inClass :: "classItem list \<Rightarrow> codeUnit \<Rightarrow> bool" where
  "inClass cls c = list_ex (inItem c) cls"

datatype regExp = WholePlus "classItem list" | WholeStar "classItem list"

fun test :: "regExp \<Rightarrow> jsstring \<Rightarrow> bool" where
  "test (WholePlus cls) s = (s \<noteq> [] \<and> list_all (inClass cls) s)"
| "test (WholeStar cls) s = list_all (inClass cls) s"

definition alnum :: "classItem list" where
  "alnum = [Range (of_char CHR ''0'') (of_char CHR ''9''),
            Range (of_char CHR ''A'') (of_char CHR ''Z''),
            Range (of_char CHR ''a'') (of_char CHR ''z'')]"

definition PATTERNS_ALPHANUMERIC :: regExp where
  "PATTERNS_ALPHANUMERIC = WholePlus alnum"

definition PATTERNS_ALPHANUMERIC_HYPHEN :: regExp where
  "PATTERNS_ALPHANUMERIC_HYPHEN = WholePlus (alnum @ [Single (of_char CHR ''-'')])"

definition PATTERNS_ALPHANUMERIC_UNDERSCORE :: regExp where
  "PATTERNS_ALPHANUMERIC_UNDERSCORE = WholePlus (alnum @ [Single (of_char CHR ''_'')])"

definition PATTERNS_ALPHANUMERIC_HYPHEN_UNDERSCORE :: regExp where
  "PATTERNS_ALPHANUMERIC_HYPHEN_UNDERSCORE =
     WholePlus (alnum @ [Single (of_char CHR ''-''), Single (of_char CHR ''_'')])"

text \<open>
  The pattern of \<open>isEncodingSafe\<close>: zero or more code units, each in the range from
  \<open>0x00\<close> to \<open>0x7F\<close>, between the anchors.
\<close>

definition ASCII_ONLY :: regExp where
  "ASCII_ONLY = WholeStar [Range 0x00 0x7F]"

fun getPatternForIdentifier :: "IdentifierComposition \<Rightarrow> regExp" where
  "getPatternForIdentifier Alphanumeric = PATTERNS_ALPHANUMERIC"
| "getPatternForIdentifier AlphanumericHyphen = PATTERNS_ALPHANUMERIC_HYPHEN"
| "getPatternForIdentifier AlphanumericUnderscore = PATTERNS_ALPHANUMERIC_UNDERSCORE"
| "getPatternForIdentifier AlphanumericHyphenUnderscore =
     PATTERNS_ALPHANUMERIC_HYPHEN_UNDERSCORE"

section \<open>String methods\<close>

definition startsWith :: "jsstring \<Rightarrow> jsstring \<Rightarrow> bool" where
  "startsWith s p = (take (length p) s = p)"

definition endsWith :: "jsstring \<Rightarrow> jsstring \<Rightarrow> bool" where
  "endsWith s p = (length p \<le> length s \<and> drop (length s - length p) s = p)"

fun "includes" :: "jsstring \<Rightarrow> jsstring \<Rightarrow> bool" where
  "includes [] p = (p = [])"
| "includes (c # s) p = (startsWith (c # s) p \<or> includes s p)"

section \<open>The validation engine\<close>

text \<open>\<open>calcStrLen = (n) => (n * 4) / 3\<close>: a division of numbers, not of integers.\<close>

definition calcStrLen :: "number \<Rightarrow> number" where
  "calcStrLen n = (n * 4) / 3"

text \<open>
  \<open>cond && throwError(code, message)\<close> as a statement: throws when \<open>cond\<close> holds, and
  otherwise does nothing. \<open>andThen\<close> is the sequencing of two statements: the second runs
  only when the first did not throw.
\<close>

definition throwError :: "HexaUrlErrorCode \<Rightarrow> thrown + unit" where
  "throwError code = Inl (HexaUrlError code)"

definition throwIf :: "bool \<Rightarrow> HexaUrlErrorCode \<Rightarrow> thrown + unit" where
  "throwIf cond code = (if cond then throwError code else Inr ())"

fun andThen :: "thrown + unit \<Rightarrow> thrown + unit \<Rightarrow> thrown + unit" where
  "andThen (Inl e) rest = Inl e"
| "andThen (Inr u) rest = rest"

definition validateDelimiters :: "jsstring \<Rightarrow> DelimiterRules \<Rightarrow> thrown + unit" where
  "validateDelimiters input rules =
     andThen
       (throwIf (\<not> allowLeadingTrailingHyphens rules \<and>
                 (startsWith input (js ''-'') \<or> endsWith input (js ''-'')))
          LeadingTrailingHyphen)
    (andThen
       (throwIf (\<not> allowLeadingTrailingUnderscores rules \<and>
                 (startsWith input (js ''_'') \<or> endsWith input (js ''_'')))
          LeadingTrailingUnderscore)
    (andThen
       (throwIf (\<not> allowConsecutiveHyphens rules \<and> includes input (js ''--''))
          ConsecutiveHyphens)
    (andThen
       (throwIf (\<not> allowConsecutiveUnderscores rules \<and> includes input (js ''__''))
          ConsecutiveUnderscores)
       (throwIf (\<not> allowAdjacentHyphenUnderscore rules \<and>
                 (includes input (js ''-_'') \<or> includes input (js ''_-'')))
          AdjacentHyphenUnderscore))))"

text \<open>The effective maximum length computed at the head of \<open>validate\<close>.\<close>

definition effectiveMax :: "Config \<Rightarrow> number \<Rightarrow> number" where
  "effectiveMax config byteSize =
     (case maxLength config of
        Some mx \<Rightarrow> min mx (calcStrLen byteSize)
      | None \<Rightarrow> calcStrLen byteSize)"

definition validate :: "jsstring \<Rightarrow> Config \<Rightarrow> number \<Rightarrow> thrown + unit" where
  "validate input config byteSize =
     (let len = of_nat (length input);
          effMax = effectiveMax config byteSize
      in
      andThen
        (throwIf (case minLength config of None \<Rightarrow> False | Some mn \<Rightarrow> effMax < mn)
           InvalidConfig)
     (andThen
        (throwIf (case minLength config of None \<Rightarrow> False | Some mn \<Rightarrow> len < mn)
           StringTooShort)
     (andThen
        (throwIf (len > effMax) StringTooLong)
     (andThen
        (throwIf (\<not> test (getPatternForIdentifier (identifier config)) input)
           InvalidCharacter)
        (validateDelimiters input
           (case delimiter config of
              Some rules \<Rightarrow> rules
            | None \<Rightarrow> createDelimiterRules noOverrides))))))"

text \<open>
  \<open>validate(input)\<close> with both default arguments: \<open>config = Config.create()\<close> and
  \<open>byteSize = 16\<close>.
\<close>

definition validateDefault :: "jsstring \<Rightarrow> thrown + unit" where
  "validateDefault input =
     (case Config_create noOptions of
        Inl e \<Rightarrow> Inl e
      | Inr config \<Rightarrow> validate input config 16)"

definition isEncodingSafe :: "jsstring \<Rightarrow> number \<Rightarrow> bool" where
  "isEncodingSafe input byteSize =
     (of_nat (length input) \<le> calcStrLen byteSize \<and> test ASCII_ONLY input)"

section \<open>The earlier two-argument interface\<close>

text \<open>
  The validation module also exists in an earlier revision, whose entry points are
  \<open>validate(input, byteSize)\<close> and \<open>validateWithConfig(input, config, byteSize)\<close>. It checks
  the minimum length before it computes the effective maximum, has no \<open>InvalidConfig\<close>
  check, and runs \<open>validateDelimiters\<close> only \<open>if (config.delimiter)\<close>. Its
  \<open>validateDelimiters\<close>, \<open>calcStrLen\<close> and \<open>isEncodingSafe\<close> compute what the current
  ones do.
\<close>

definition validateWithConfig :: "jsstring \<Rightarrow> Config \<Rightarrow> number \<Rightarrow> thrown + unit" where
  "validateWithConfig input config byteSize =
     (let len = of_nat (length input)
      in
      andThen
        (throwIf (case minLength config of None \<Rightarrow> False | Some mn \<Rightarrow> len < mn)
           StringTooShort)
        (let effMax = effectiveMax config byteSize
         in
         andThen
           (throwIf (len > effMax) StringTooLong)
        (andThen
           (throwIf (\<not> test (getPatternForIdentifier (identifier config)) input)
              InvalidCharacter)
           (case delimiter config of
              Some rules \<Rightarrow> validateDelimiters input rules
            | None \<Rightarrow> Inr ()))))"

definition validate_legacy :: "jsstring \<Rightarrow> number \<Rightarrow> thrown + unit" where
  "validate_legacy input byteSize =
     (case Config_create noOptions of
        Inl e \<Rightarrow> Inl e
      | Inr config \<Rightarrow> validateWithConfig input config byteSize)"

section \<open>Notions of the specification\<close>

text \<open>The specification's length accounting: \<open>floor(n * 4 / 3)\<close> on non-negative integers.\<close>

definition lengthAccounting :: "nat \<Rightarrow> nat" where
  "lengthAccounting n = (n * 4) div 3"

text \<open>The three conditions that \<open>validate\<close> tests before it looks at any character.\<close>

definition configConflict :: "Config \<Rightarrow> number \<Rightarrow> bool" where
  "configConflict config byteSize =
     (case minLength config of None \<Rightarrow> False | Some mn \<Rightarrow> effectiveMax config byteSize < mn)"

definition tooShort :: "jsstring \<Rightarrow> Config \<Rightarrow> bool" where
  "tooShort input config =
     (case minLength config of None \<Rightarrow> False | Some mn \<Rightarrow> of_nat (length input) < mn)"

definition tooLong :: "jsstring \<Rightarrow> Config \<Rightarrow> number \<Rightarrow> bool" where
  "tooLong input config byteSize = (of_nat (length input) > effectiveMax config byteSize)"

text \<open>The delimiter rules in force: those of the configuration, or the strict defaults.\<close>

definition rulesInForce :: "Config \<Rightarrow> DelimiterRules" where
  "rulesInForce config =
     (case delimiter config of Some rules \<Rightarrow> rules | None \<Rightarrow> createDelimiterRules noOverrides)"

text \<open>
  The specification's ordered list of checks, each with the condition under which it is
  violated and the error it reports. It is written out in full, independently of the
  code's helper values: the effective maximum is the byte-budget-derived bound when
  \<open>maxLength\<close> is absent and the minimum of \<open>maxLength\<close> and that bound otherwise, and an
  absent \<open>delimiter\<close> field stands for the rules with all five flags false.
  \<open>firstViolated\<close> picks the error of the first violated check and looks no further.
\<close>

definition strictRules :: DelimiterRules where
  "strictRules =
     \<lparr>allowLeadingTrailingHyphens = False,
      allowLeadingTrailingUnderscores = False,
      allowConsecutiveHyphens = False,
      allowConsecutiveUnderscores = False,
      allowAdjacentHyphenUnderscore = False\<rparr>"

definition orderedChecks ::
  "number \<Rightarrow> jsstring \<Rightarrow> Config \<Rightarrow> (bool \<times> HexaUrlErrorCode) list" where
  "orderedChecks bound input config =
     (let len = of_nat (length input);
          effMax = (case maxLength config of None \<Rightarrow> bound | Some mx \<Rightarrow> min mx bound);
          rules = (case delimiter config of None \<Rightarrow> strictRules | Some r \<Rightarrow> r)
      in
      [((case minLength config of None \<Rightarrow> False | Some mn \<Rightarrow> effMax < mn), InvalidConfig),
       ((case minLength config of None \<Rightarrow> False | Some mn \<Rightarrow> len < mn), StringTooShort),
       (effMax < len, StringTooLong),
       (\<not> test (getPatternForIdentifier (identifier config)) input, InvalidCharacter),
       (\<not> allowLeadingTrailingHyphens rules \<and>
          (startsWith input (js ''-'') \<or> endsWith input (js ''-'')), LeadingTrailingHyphen),
       (\<not> allowLeadingTrailingUnderscores rules \<and>
          (startsWith input (js ''_'') \<or> endsWith input (js ''_'')), LeadingTrailingUnderscore),
       (\<not> allowConsecutiveHyphens rules \<and> includes input (js ''--''), ConsecutiveHyphens),
       (\<not> allowConsecutiveUnderscores rules \<and> includes input (js ''__''),
          ConsecutiveUnderscores),
       (\<not> allowAdjacentHyphenUnderscore rules \<and>
          (includes input (js ''-_'') \<or> includes input (js ''_-'')),
          AdjacentHyphenUnderscore)])"

fun firstViolated :: "(bool \<times> HexaUrlErrorCode) list \<Rightarrow> HexaUrlErrorCode option" where
  "firstViolated [] = None"
| "firstViolated ((violated, code) # rest) =
     (if violated then Some code else firstViolated rest)"

definition outcome :: "HexaUrlErrorCode option \<Rightarrow> thrown + unit" where
  "outcome r = (case r of None \<Rightarrow> Inr () | Some code \<Rightarrow> Inl (HexaUrlError code))"

text \<open>The set of code units a composition allows: the class of its pattern.\<close>

fun classOf :: "regExp \<Rightarrow> classItem list" where
  "classOf (WholePlus cls) = cls"
| "classOf (WholeStar cls) = cls"

definition allowedBy :: "IdentifierComposition \<Rightarrow> codeUnit \<Rightarrow> bool" where
  "allowedBy composition c = inClass (classOf (getPatternForIdentifier composition)) c"

text \<open>
  Counting characters instead of code units: a high surrogate followed by a low surrogate
  is one character, every other code unit is one character.
\<close>

definition isHighSurrogate :: "codeUnit \<Rightarrow> bool" where
  "isHighSurrogate c = (0xD800 \<le> c \<and> c \<le> 0xDBFF)"

definition isLowSurrogate :: "codeUnit \<Rightarrow> bool" where
  "isLowSurrogate c = (0xDC00 \<le> c \<and> c \<le> 0xDFFF)"

fun characterCount :: "jsstring \<Rightarrow> nat" where
  "characterCount [] = 0"
| "characterCount [c] = 1"
| "characterCount (c # d # s) =
     (if isHighSurrogate c \<and> isLowSurrogate d
      then Suc (characterCount s)
      else Suc (characterCount (d # s)))"

fun surrogatePairs :: "jsstring \<Rightarrow> nat" where
  "surrogatePairs [] = 0"
| "surrogatePairs [c] = 0"
| "surrogatePairs (c # d # s) =
     (if isHighSurrogate c \<and> isLowSurrogate d
      then Suc (surrogatePairs s)
      else surrogatePairs (d # s))"

text \<open>The five delimiter flags, each with its forbidden pattern and its error.\<close>

datatype delimiterFlag =
    LeadingTrailingHyphens
  | LeadingTrailingUnderscores
  | ConsecutiveHyphenPair
  | ConsecutiveUnderscorePair
  | AdjacentHyphenUnderscorePair

fun forbiddenPattern :: "delimiterFlag \<Rightarrow> jsstring \<Rightarrow> bool" where
  "forbiddenPattern LeadingTrailingHyphens s =
     (startsWith s (js ''-'') \<or> endsWith s (js ''-''))"
| "forbiddenPattern LeadingTrailingUnderscores s =
     (startsWith s (js ''_'') \<or> endsWith s (js ''_''))"
| "forbiddenPattern ConsecutiveHyphenPair s = includes s (js ''--'')"
| "forbiddenPattern ConsecutiveUnderscorePair s = includes s (js ''__'')"
| "forbiddenPattern AdjacentHyphenUnderscorePair s =
     (includes s (js ''-_'') \<or> includes s (js ''_-''))"

fun errorOfFlag :: "delimiterFlag \<Rightarrow> HexaUrlErrorCode" where
  "errorOfFlag LeadingTrailingHyphens = LeadingTrailingHyphen"
| "errorOfFlag LeadingTrailingUnderscores = LeadingTrailingUnderscore"
| "errorOfFlag ConsecutiveHyphenPair = ConsecutiveHyphens"
| "errorOfFlag ConsecutiveUnderscorePair = ConsecutiveUnderscores"
| "errorOfFlag AdjacentHyphenUnderscorePair = AdjacentHyphenUnderscore"

fun setFlag :: "delimiterFlag \<Rightarrow> bool \<Rightarrow> DelimiterRules \<Rightarrow> DelimiterRules" where
  "setFlag LeadingTrailingHyphens b r = r\<lparr>allowLeadingTrailingHyphens := b\<rparr>"
| "setFlag LeadingTrailingUnderscores b r = r\<lparr>allowLeadingTrailingUnderscores := b\<rparr>"
| "setFlag ConsecutiveHyphenPair b r = r\<lparr>allowConsecutiveHyphens := b\<rparr>"
| "setFlag ConsecutiveUnderscorePair b r = r\<lparr>allowConsecutiveUnderscores := b\<rparr>"
| "setFlag AdjacentHyphenUnderscorePair b r = r\<lparr>allowAdjacentHyphenUnderscore := b\<rparr>"

text \<open>
  Everything \<open>validate\<close> tests before the delimiter rules: no configuration conflict,
  both length checks and the composition pattern.
\<close>

definition earlierChecksPass :: "jsstring \<Rightarrow> Config \<Rightarrow> number \<Rightarrow> bool" where
  "earlierChecksPass input config byteSize =
     (\<not> configConflict config byteSize \<and> \<not> tooShort input config \<and>
      \<not> tooLong input config byteSize \<and>
      test (getPatternForIdentifier (identifier config)) input)"

text \<open>The default configuration, as a value: what \<open>Config.create()\<close> returns.\<close>

definition defaultConfig :: Config where
  "defaultConfig =
     \<lparr>minLength = Some 3, maxLength = None, identifier = AlphanumericHyphen,
      delimiter = None\<rparr>"

section \<open>Basic facts\<close>

subsection \<open>Statements that may throw\<close>

lemma andThen_throwIf:
  "andThen (throwIf b code) rest = (if b then Inl (HexaUrlError code) else rest)"
  by (simp add: throwIf_def throwError_def)

lemma throwIf_eq:
  "throwIf b code = (if b then Inl (HexaUrlError code) else Inr ())"
  by (simp add: throwIf_def throwError_def)

lemma validateDelimiters_unfold:
  "validateDelimiters input rules =
     outcome (firstViolated
       [(\<not> allowLeadingTrailingHyphens rules \<and>
           (startsWith input (js ''-'') \<or> endsWith input (js ''-'')), LeadingTrailingHyphen),
        (\<not> allowLeadingTrailingUnderscores rules \<and>
           (startsWith input (js ''_'') \<or> endsWith input (js ''_'')), LeadingTrailingUnderscore),
        (\<not> allowConsecutiveHyphens rules \<and> includes input (js ''--''), ConsecutiveHyphens),
        (\<not> allowConsecutiveUnderscores rules \<and> includes input (js ''__''),
           ConsecutiveUnderscores),
        (\<not> allowAdjacentHyphenUnderscore rules \<and>
           (includes input (js ''-_'') \<or> includes input (js ''_-'')), AdjacentHyphenUnderscore)])"
  unfolding validateDelimiters_def andThen_throwIf throwIf_eq outcome_def
  by simp

lemma validate_unfold:
  "validate input config byteSize =
     (if configConflict config byteSize then Inl (HexaUrlError InvalidConfig)
      else if tooShort input config then Inl (HexaUrlError StringTooShort)
      else if tooLong input config byteSize then Inl (HexaUrlError StringTooLong)
      else if \<not> test (getPatternForIdentifier (identifier config)) input
        then Inl (HexaUrlError InvalidCharacter)
      else validateDelimiters input (rulesInForce config))"
  unfolding validate_def Let_def andThen_throwIf configConflict_def tooShort_def tooLong_def
    rulesInForce_def
  by simp

lemma validateWithConfig_unfold:
  "validateWithConfig input config byteSize =
     (if tooShort input config then Inl (HexaUrlError StringTooShort)
      else if tooLong input config byteSize then Inl (HexaUrlError StringTooLong)
      else if \<not> test (getPatternForIdentifier (identifier config)) input
        then Inl (HexaUrlError InvalidCharacter)
      else case delimiter config of
             Some rules \<Rightarrow> validateDelimiters input rules
           | None \<Rightarrow> Inr ())"
  unfolding validateWithConfig_def Let_def andThen_throwIf tooShort_def tooLong_def
  by simp

lemma Config_create_noOptions: "Config_create noOptions = Inr defaultConfig"
  by (simp add: Config_create_def noOptions_def newConfig_def Config_validate_def
      DEFAULT_MIN_LENGTH_def defaultConfig_def)

lemma validateDefault_eq: "validateDefault input = validate input defaultConfig 16"
  by (simp add: validateDefault_def Config_create_noOptions)

subsection \<open>Length accounting\<close>

lemma calcStrLen_le_iff:
  "of_nat len \<le> calcStrLen (of_nat n) \<longleftrightarrow> len \<le> lengthAccounting n"
proof -
  have "(of_nat len :: rat) \<le> (of_nat n * 4) / 3 \<longleftrightarrow> (of_nat (3 * len) :: rat) \<le> of_nat (n * 4)"
    by (simp add: field_simps)
  also have "\<dots> \<longleftrightarrow> 3 * len \<le> n * 4"
    by (simp only: of_nat_le_iff)
  also have "\<dots> \<longleftrightarrow> len \<le> (n * 4) div 3"
    by presburger
  finally show ?thesis
    by (simp add: calcStrLen_def lengthAccounting_def)
qed

lemma floor_calcStrLen: "\<lfloor>calcStrLen (of_nat n)\<rfloor> = int (lengthAccounting n)"
  using floor_divide_of_nat_eq [of "n * 4" 3, where ?'a = rat]
  by (simp add: calcStrLen_def lengthAccounting_def)

text \<open>The quotient is an integer only for byte sizes divisible by 3.\<close>

lemma calcStrLen_integral_iff:
  "calcStrLen (of_nat n) = of_nat (lengthAccounting n) \<longleftrightarrow> 3 dvd n"
proof -
  have "(of_nat n * 4) / 3 = (of_nat ((n * 4) div 3) :: rat)
        \<longleftrightarrow> (of_nat (n * 4) :: rat) = of_nat (3 * ((n * 4) div 3))"
    by (simp add: field_simps)
  also have "\<dots> \<longleftrightarrow> n * 4 = 3 * ((n * 4) div 3)"
    by (simp only: of_nat_eq_iff)
  also have "\<dots> \<longleftrightarrow> 3 dvd n"
    by presburger
  finally show ?thesis
    by (simp add: calcStrLen_def lengthAccounting_def)
qed

subsection \<open>Character classes\<close>

lemma test_ASCII_ONLY: "test ASCII_ONLY s \<longleftrightarrow> (\<forall>c\<in>set s. c \<le> 0x7F)"
  by (simp add: ASCII_ONLY_def inClass_def list_all_iff)

lemma allowedBy_cases:
  "allowedBy i c \<longleftrightarrow>
     (0x30 \<le> c \<and> c \<le> 0x39) \<or> (0x41 \<le> c \<and> c \<le> 0x5A) \<or> (0x61 \<le> c \<and> c \<le> 0x7A)
     \<or> (c = 0x2D \<and> (i = AlphanumericHyphen \<or> i = AlphanumericHyphenUnderscore))
     \<or> (c = 0x5F \<and> (i = AlphanumericUnderscore \<or> i = AlphanumericHyphenUnderscore))"
  by (cases i)
     (auto simp: allowedBy_def inClass_def alnum_def PATTERNS_ALPHANUMERIC_def
        PATTERNS_ALPHANUMERIC_HYPHEN_def PATTERNS_ALPHANUMERIC_UNDERSCORE_def
        PATTERNS_ALPHANUMERIC_HYPHEN_UNDERSCORE_def)

lemma allowedBy_ascii: "allowedBy i c \<Longrightarrow> c \<le> 0x7F"
  unfolding allowedBy_cases word_le_nat_alt
  by auto

lemma test_pattern_iff:
  "test (getPatternForIdentifier i) s \<longleftrightarrow> s \<noteq> [] \<and> (\<forall>c\<in>set s. allowedBy i c)"
  by (cases i)
     (simp_all add: allowedBy_def list_all_iff PATTERNS_ALPHANUMERIC_def
        PATTERNS_ALPHANUMERIC_HYPHEN_def PATTERNS_ALPHANUMERIC_UNDERSCORE_def
        PATTERNS_ALPHANUMERIC_HYPHEN_UNDERSCORE_def)

subsection \<open>Code units and characters\<close>

lemma high_not_ascii: "isHighSurrogate c \<Longrightarrow> \<not> c \<le> 0x7F"
  by (simp add: isHighSurrogate_def word_le_nat_alt)

lemma characterCount_ascii: "\<forall>c\<in>set s. c \<le> 0x7F \<Longrightarrow> characterCount s = length s"
  by (induction s rule: characterCount.induct) (auto dest: high_not_ascii)

lemma length_characterCount: "length s = characterCount s + surrogatePairs s"
  by (induction s rule: characterCount.induct) auto

subsection \<open>The length conditions do not read the delimiter rules\<close>

lemma effectiveMax_delimiter:
  "effectiveMax (config\<lparr>delimiter := d\<rparr>) byteSize = effectiveMax config byteSize"
  by (simp add: effectiveMax_def)

lemma configConflict_delimiter:
  "configConflict (config\<lparr>delimiter := d\<rparr>) byteSize = configConflict config byteSize"
  by (simp add: configConflict_def effectiveMax_delimiter cong: option.case_cong)

lemma tooShort_delimiter: "tooShort input (config\<lparr>delimiter := d\<rparr>) = tooShort input config"
  by (simp add: tooShort_def)

lemma tooLong_delimiter:
  "tooLong input (config\<lparr>delimiter := d\<rparr>) byteSize = tooLong input config byteSize"
  by (simp add: tooLong_def effectiveMax_delimiter)

lemmas frame_delimiter = configConflict_delimiter tooShort_delimiter tooLong_delimiter

text \<open>The equations that evaluate \<open>validate\<close> on a concrete input.\<close>

lemmas eval_defs = validate_unfold validateDelimiters_unfold configConflict_def tooShort_def
  tooLong_def effectiveMax_def calcStrLen_def rulesInForce_def createDelimiterRules_def
  noOverrides_def defaultConfig_def outcome_def js_def startsWith_def endsWith_def
  PATTERNS_ALPHANUMERIC_def PATTERNS_ALPHANUMERIC_HYPHEN_def PATTERNS_ALPHANUMERIC_UNDERSCORE_def
  PATTERNS_ALPHANUMERIC_HYPHEN_UNDERSCORE_def alnum_def inClass_def

subsection \<open>The delimiter stage\<close>

lemma validate_delimiter_stage:
  "earlierChecksPass input config byteSize \<Longrightarrow>
   validate input (config\<lparr>delimiter := Some r\<rparr>) byteSize = validateDelimiters input r"
  by (simp add: validate_unfold frame_delimiter earlierChecksPass_def rulesInForce_def)

lemma validateDelimiters_not_plain: "validateDelimiters input r \<noteq> Inl (Error m)"
  by (simp add: validateDelimiters_unfold outcome_def)

lemma validateDelimiters_not_InvalidConfig:
  "validateDelimiters input r \<noteq> Inl (HexaUrlError InvalidConfig)"
  by (simp add: validateDelimiters_unfold outcome_def)

lemma validate_not_plain: "validate input config byteSize \<noteq> Inl (Error m)"
  by (simp add: validate_unfold validateDelimiters_not_plain)

lemma validate_InvalidConfig_iff:
  "validate input config byteSize = Inl (HexaUrlError InvalidConfig) \<longleftrightarrow>
     configConflict config byteSize"
  by (simp add: validate_unfold validateDelimiters_not_InvalidConfig)

subsection \<open>The constructor\<close>

lemma newConfig_eq:
  "newConfig mn mx i d =
     (if (\<exists>a b. mn = Some a \<and> mx = Some b \<and> a > b)
      then Inl (Error ''Minimum length cannot be greater than maximum length'')
      else Inr \<lparr>minLength = mn, maxLength = mx, identifier = i, delimiter = d\<rparr>)"
  by (cases mn; cases mx) (simp_all add: newConfig_def Config_validate_def Let_def)

section \<open>Length accounting\<close>

text \<open>
  Claim C1 says that \<open>calcStrLen\<close> returns \<open>floor(n * 4 / 3)\<close>: 21 for 16, 10 for 8 and 42
  for 32. The function divides numbers and does not truncate: for the byte size 16 it
  returns \<open>64 / 3\<close>, which is not 21, and likewise for 8 and 32. Only the floor of the
  returned value is the specified one, and the two agree exactly for the byte sizes
  divisible by 3. (Lemma \<open>calcStrLen_le_iff\<close> shows that comparing an integer length
  with the returned value decides as the truncated value would.)
\<close>

theorem calcStrLen_not_truncated:
  "calcStrLen 16 = 64 / 3 \<and> calcStrLen 16 \<noteq> 21
   \<and> calcStrLen 8 = 32 / 3 \<and> calcStrLen 8 \<noteq> 10
   \<and> calcStrLen 32 = 128 / 3 \<and> calcStrLen 32 \<noteq> 42
   \<and> lengthAccounting 16 = 21 \<and> lengthAccounting 8 = 10 \<and> lengthAccounting 32 = 42
   \<and> calcStrLen (of_nat 16) \<noteq> of_nat (lengthAccounting 16)
   \<and> \<lfloor>calcStrLen 16\<rfloor> = 21
   \<and> (calcStrLen (of_nat n) = of_nat (lengthAccounting n) \<longleftrightarrow> 3 dvd n)"
proof -
  have "\<lfloor>calcStrLen 16\<rfloor> = 21"
    using floor_calcStrLen [of 16] by (simp add: lengthAccounting_def)
  moreover have "calcStrLen (of_nat n) = of_nat (lengthAccounting n) \<longleftrightarrow> 3 dvd n"
    by (rule calcStrLen_integral_iff)
  ultimately show ?thesis
    by (simp add: calcStrLen_def lengthAccounting_def)
qed

section \<open>The order of the checks\<close>

lemma rulesInForce_strict:
  "rulesInForce config = (case delimiter config of None \<Rightarrow> strictRules | Some r \<Rightarrow> r)"
  by (simp add: rulesInForce_def strictRules_def createDelimiterRules_def noOverrides_def
      split: option.splits)

lemma validate_ordered_exact:
  "validate input config byteSize =
     outcome (firstViolated (orderedChecks (calcStrLen byteSize) input config))"
  unfolding validate_unfold validateDelimiters_unfold orderedChecks_def Let_def
    configConflict_def tooShort_def tooLong_def effectiveMax_def rulesInForce_strict
  by (simp add: outcome_def)

text \<open>
  Against an integer minimum length and an integer string length, the quotient of a
  non-negative integer byte size decides as its floor does.
\<close>

lemma less_calcStrLen_iff:
  "calcStrLen (of_nat n) < of_nat len \<longleftrightarrow> (of_nat (lengthAccounting n) :: rat) < of_nat len"
proof -
  have "calcStrLen (of_nat n) < of_nat len \<longleftrightarrow> \<not> len \<le> lengthAccounting n"
    using calcStrLen_le_iff [of len n] by auto
  then show ?thesis
    by (simp add: not_le)
qed

lemma calcStrLen_less_int_iff:
  assumes "mn \<in> \<int>"
  shows "calcStrLen (of_nat n) < mn \<longleftrightarrow> (of_nat (lengthAccounting n) :: rat) < mn"
proof -
  from assms obtain k :: int where k: "mn = of_int k"
    by (auto elim: Ints_cases)
  have "calcStrLen (of_nat n) < of_int k \<longleftrightarrow> \<lfloor>calcStrLen (of_nat n)\<rfloor> < k"
    by (simp add: floor_less_iff)
  also have "\<dots> \<longleftrightarrow> int (lengthAccounting n) < k"
    by (simp add: floor_calcStrLen)
  also have "\<dots> \<longleftrightarrow> (of_int (int (lengthAccounting n)) :: rat) < of_int k"
    by (simp only: of_int_less_iff)
  finally show ?thesis
    by (simp add: k)
qed

lemma orderedChecks_floor:
  assumes "case minLength config of None \<Rightarrow> True | Some mn \<Rightarrow> mn \<in> \<int>"
  shows "orderedChecks (calcStrLen (of_nat n)) input config =
         orderedChecks (of_nat (lengthAccounting n)) input config"
proof -
  have long: "min mx (calcStrLen (of_nat n)) < of_nat (length input) \<longleftrightarrow>
              min mx (of_nat (lengthAccounting n)) < of_nat (length input)" for mx
    by (simp add: min_less_iff_disj less_calcStrLen_iff)
  have conflict: "min mx (calcStrLen (of_nat n)) < mn \<longleftrightarrow>
                  min mx (of_nat (lengthAccounting n)) < mn" if "mn \<in> \<int>" for mx mn
    by (simp add: min_less_iff_disj calcStrLen_less_int_iff [OF that])
  show ?thesis
  proof (cases "minLength config")
    case None
    then show ?thesis
      by (cases "maxLength config") (simp_all add: orderedChecks_def Let_def less_calcStrLen_iff long)
  next
    case (Some mn)
    with assms have "mn \<in> \<int>" by simp
    with Some show ?thesis
      by (cases "maxLength config")
         (simp_all add: orderedChecks_def Let_def less_calcStrLen_iff long calcStrLen_less_int_iff
            conflict)
  qed
qed

text \<open>
  Claim C2: for every input, configuration and byte size, \<open>validate\<close> reports the error
  of the first violated check in the order configuration conflict (\<open>InvalidConfig\<close>),
  minimum length, maximum length, composition pattern, leading or trailing hyphen, leading
  or trailing underscore, consecutive hyphens, consecutive underscores, adjacent hyphen and
  underscore; later checks have no influence, and it succeeds when no check is violated.
  The effective maximum of the first and third check is the byte-budget-derived bound,
  or the minimum of \<open>maxLength\<close> and that bound when \<open>maxLength\<close> is present. The bound is
  the value \<open>byteSize * 4 / 3\<close>; for a non-negative integer byte size and an integer
  minimum length, the specification's \<open>floor(n * 4 / 3)\<close> in its place gives the same
  outcome.
\<close>

theorem validate_first_violated_check:
  "validate input config byteSize =
     outcome (firstViolated (orderedChecks (byteSize * 4 / 3) input config))
   \<and> ((case minLength config of None \<Rightarrow> True | Some mn \<Rightarrow> mn \<in> \<int>) \<longrightarrow>
        validate input config (of_nat n) =
          outcome (firstViolated (orderedChecks (of_nat (lengthAccounting n)) input config)))"
proof (intro conjI impI)
  show "validate input config byteSize =
     outcome (firstViolated (orderedChecks (byteSize * 4 / 3) input config))"
    using validate_ordered_exact [of input config byteSize] by (simp add: calcStrLen_def)
next
  assume "case minLength config of None \<Rightarrow> True | Some mn \<Rightarrow> mn \<in> \<int>"
  then show "validate input config (of_nat n) =
          outcome (firstViolated (orderedChecks (of_nat (lengthAccounting n)) input config))"
    by (simp add: validate_ordered_exact orderedChecks_floor)
qed

text \<open>
  Instances. An input that violates the composition check and three delimiter checks at
  once: the composition check comes first. A maximum length of 10 under 16 bytes: twelve
  letters are too long, ten pass. A maximum length of 30 under 16 bytes: the byte budget
  is the smaller bound, so 22 letters are too long and 21 pass. A minimum length of 5 with
  a maximum of 30 under 3 bytes: the effective maximum 4 is below the minimum, and the
  configuration conflict is reported before the input is looked at.
\<close>

theorem validate_first_violated_check_witness:
  "validate (js ''-a--b_'') defaultConfig 16 = Inl (HexaUrlError InvalidCharacter)
   \<and> validate (js ''abcdefghijkl'') (defaultConfig\<lparr>maxLength := Some 10\<rparr>) 16
       = Inl (HexaUrlError StringTooLong)
   \<and> validate (js ''abcdefghij'') (defaultConfig\<lparr>maxLength := Some 10\<rparr>) 16 = Inr ()
   \<and> validate (js ''abcdefghijklmnopqrstuv'') (defaultConfig\<lparr>maxLength := Some 30\<rparr>) 16
       = Inl (HexaUrlError StringTooLong)
   \<and> validate (js ''abcdefghijklmnopqrstu'') (defaultConfig\<lparr>maxLength := Some 30\<rparr>) 16
       = Inr ()
   \<and> validate (js ''!'') (defaultConfig\<lparr>minLength := Some 5, maxLength := Some 30\<rparr>) 3
       = Inl (HexaUrlError InvalidConfig)"
proof -
  have int3: "case minLength defaultConfig of None \<Rightarrow> True | Some mn \<Rightarrow> mn \<in> \<int>"
    by (simp add: defaultConfig_def)
  have a: "validate (js ''-a--b_'') defaultConfig 16 = Inl (HexaUrlError InvalidCharacter)"
    using validate_first_violated_check [of "js ''-a--b_''" defaultConfig 16 16] int3
    by (simp add: orderedChecks_def lengthAccounting_def strictRules_def defaultConfig_def
        outcome_def js_def startsWith_def endsWith_def PATTERNS_ALPHANUMERIC_HYPHEN_def
        alnum_def inClass_def)
  have b: "validate (js ''abcdefghijkl'') (defaultConfig\<lparr>maxLength := Some 10\<rparr>) 16
       = Inl (HexaUrlError StringTooLong)"
    using validate_first_violated_check
      [of "js ''abcdefghijkl''" "defaultConfig\<lparr>maxLength := Some 10\<rparr>" 16 16]
    by (simp add: orderedChecks_def defaultConfig_def outcome_def js_def)
  have c: "validate (js ''abcdefghij'') (defaultConfig\<lparr>maxLength := Some 10\<rparr>) 16 = Inr ()"
    using validate_first_violated_check
      [of "js ''abcdefghij''" "defaultConfig\<lparr>maxLength := Some 10\<rparr>" 16 16]
    by (simp add: orderedChecks_def strictRules_def defaultConfig_def
        outcome_def js_def startsWith_def endsWith_def PATTERNS_ALPHANUMERIC_HYPHEN_def
        alnum_def inClass_def)
  have d: "validate (js ''abcdefghijklmnopqrstuv'') (defaultConfig\<lparr>maxLength := Some 30\<rparr>) 16
       = Inl (HexaUrlError StringTooLong)"
    using validate_first_violated_check
      [of "js ''abcdefghijklmnopqrstuv''" "defaultConfig\<lparr>maxLength := Some 30\<rparr>" 16 16]
    by (simp add: orderedChecks_def defaultConfig_def outcome_def js_def)
  have e: "validate (js ''abcdefghijklmnopqrstu'') (defaultConfig\<lparr>maxLength := Some 30\<rparr>) 16
       = Inr ()"
    using validate_first_violated_check
      [of "js ''abcdefghijklmnopqrstu''" "defaultConfig\<lparr>maxLength := Some 30\<rparr>" 16 16]
    by (simp add: orderedChecks_def strictRules_def defaultConfig_def
        outcome_def js_def startsWith_def endsWith_def PATTERNS_ALPHANUMERIC_HYPHEN_def
        alnum_def inClass_def)
  have f: "validate (js ''!'') (defaultConfig\<lparr>minLength := Some 5, maxLength := Some 30\<rparr>) 3
       = Inl (HexaUrlError InvalidConfig)"
    using validate_first_violated_check
      [of "js ''!''" "defaultConfig\<lparr>minLength := Some 5, maxLength := Some 30\<rparr>" 3 3]
    by (simp add: orderedChecks_def defaultConfig_def outcome_def js_def)
  from a b c d e f show ?thesis by blast
qed

section \<open>An absent delimiter field\<close>

text \<open>
  Claim C3: with a configuration whose \<open>delimiter\<close> field is \<open>null\<close>, \<open>validate\<close> behaves
  as with the rules whose five flags are all false; it does not skip the delimiter checks.
  In particular \<open>validate("too--many-hyphens")\<close> with the default configuration and byte
  size fails with \<open>ConsecutiveHyphens\<close>.
\<close>

theorem absent_delimiter_means_strict_rules:
  "validate input (config\<lparr>delimiter := None\<rparr>) byteSize =
     validate input
       (config\<lparr>delimiter := Some
          \<lparr>allowLeadingTrailingHyphens = False,
           allowLeadingTrailingUnderscores = False,
           allowConsecutiveHyphens = False,
           allowConsecutiveUnderscores = False,
           allowAdjacentHyphenUnderscore = False\<rparr>\<rparr>) byteSize
   \<and> validateDefault (js ''too--many-hyphens'') = Inl (HexaUrlError ConsecutiveHyphens)"
proof
  show "validate input (config\<lparr>delimiter := None\<rparr>) byteSize =
     validate input
       (config\<lparr>delimiter := Some
          \<lparr>allowLeadingTrailingHyphens = False,
           allowLeadingTrailingUnderscores = False,
           allowConsecutiveHyphens = False,
           allowConsecutiveUnderscores = False,
           allowAdjacentHyphenUnderscore = False\<rparr>\<rparr>) byteSize"
    by (simp add: validate_unfold frame_delimiter rulesInForce_def createDelimiterRules_def
        noOverrides_def)
  show "validateDefault (js ''too--many-hyphens'') = Inl (HexaUrlError ConsecutiveHyphens)"
    unfolding validateDefault_eq by (simp add: eval_defs)
qed

theorem absent_delimiter_means_strict_rules_witness:
  "validate (js ''a__b'')
     (defaultConfig\<lparr>identifier := AlphanumericHyphenUnderscore, delimiter := None\<rparr>) 16
     = Inl (HexaUrlError ConsecutiveUnderscores)"
  using absent_delimiter_means_strict_rules
    [of "js ''a__b''" "defaultConfig\<lparr>identifier := AlphanumericHyphenUnderscore\<rparr>" 16]
  by (simp add: eval_defs)

section \<open>The fast safety check\<close>

text \<open>
  Claim C4: for every string \<open>s\<close> and non-negative integer byte size \<open>n\<close>,
  \<open>isEncodingSafe(s, n)\<close> is true exactly when \<open>s\<close> has at most \<open>floor(n * 4 / 3)\<close>
  characters and every one of them lies in the range from \<open>0x00\<close> to \<open>0x7F\<close>. The length
  may be read as the number of code units or as the number of characters: for a string
  within that range the two agree. The function returns a Boolean and has no way to throw.
  It checks neither the composition nor the delimiter rules: it accepts \<open>a!b\<close> and
  \<open>-a--b\<close>, which \<open>validate\<close> rejects.
\<close>

theorem isEncodingSafe_iff:
  "(isEncodingSafe s (of_nat n) \<longleftrightarrow>
      length s \<le> lengthAccounting n \<and> (\<forall>c\<in>set s. c \<le> 0x7F))
   \<and> (isEncodingSafe s (of_nat n) \<longleftrightarrow>
        characterCount s \<le> lengthAccounting n \<and> (\<forall>c\<in>set s. c \<le> 0x7F))
   \<and> isEncodingSafe (js ''a!b'') 16
   \<and> validateDefault (js ''a!b'') = Inl (HexaUrlError InvalidCharacter)
   \<and> isEncodingSafe (js ''-a--b'') 16
   \<and> validateDefault (js ''-a--b'') = Inl (HexaUrlError LeadingTrailingHyphen)"
proof -
  have a: "isEncodingSafe s (of_nat n) \<longleftrightarrow>
      length s \<le> lengthAccounting n \<and> (\<forall>c\<in>set s. c \<le> 0x7F)"
    by (simp add: isEncodingSafe_def calcStrLen_le_iff test_ASCII_ONLY)
  have b: "isEncodingSafe s (of_nat n) \<longleftrightarrow>
        characterCount s \<le> lengthAccounting n \<and> (\<forall>c\<in>set s. c \<le> 0x7F)"
    unfolding a using characterCount_ascii [of s] by auto
  have c: "isEncodingSafe (js ''a!b'') 16"
    by (simp add: isEncodingSafe_def calcStrLen_def ASCII_ONLY_def inClass_def js_def)
  have d: "validateDefault (js ''a!b'') = Inl (HexaUrlError InvalidCharacter)"
    unfolding validateDefault_eq by (simp add: eval_defs)
  have e: "isEncodingSafe (js ''-a--b'') 16"
    by (simp add: isEncodingSafe_def calcStrLen_def ASCII_ONLY_def inClass_def js_def)
  have f: "validateDefault (js ''-a--b'') = Inl (HexaUrlError LeadingTrailingHyphen)"
    unfolding validateDefault_eq by (simp add: eval_defs)
  from a b c d e f show ?thesis by blast
qed

text \<open>
  \<open>hello\<close> is safe; the fox emoji (the surrogate pair \<open>D83E DD8A\<close>) and a string of
  fifty letters are not.
\<close>

theorem isEncodingSafe_iff_witness:
  "isEncodingSafe (js ''hello'') (of_nat 16)
   \<and> \<not> isEncodingSafe [0xD83E, 0xDD8A] (of_nat 16)
   \<and> \<not> isEncodingSafe (replicate 50 0x61) (of_nat 16)"
  using isEncodingSafe_iff [of "js ''hello''" 16] isEncodingSafe_iff [of "[0xD83E, 0xDD8A]" 16]
    isEncodingSafe_iff [of "replicate 50 0x61" 16]
  by (simp add: js_def lengthAccounting_def)

section \<open>Characters outside the composition\<close>

text \<open>
  Claim C5 says that an input with a character outside the allowed set fails with
  \<open>InvalidCharacter\<close> regardless of its length. The length checks come first: \<open>a!\<close>
  under the default configuration contains the disallowed \<open>!\<close> and fails with
  \<open>StringTooShort\<close>.
\<close>

theorem disallowed_character_counterexample:
  "\<not> allowedBy (identifier defaultConfig) (of_char CHR ''!'')
   \<and> of_char CHR ''!'' \<in> set (js ''a!'')
   \<and> validate (js ''a!'') defaultConfig 16 = Inl (HexaUrlError StringTooShort)
   \<and> validate (js ''a!'') defaultConfig 16 \<noteq> Inl (HexaUrlError InvalidCharacter)"
  by (simp add: eval_defs allowedBy_def)

text \<open>
  Claim C5, amended: an input with a character outside the allowed set of the selected
  composition always fails; the error is that of the first violated check among
  configuration conflict, minimum length and maximum length, and \<open>InvalidCharacter\<close> when
  those three pass. No delimiter rule is consulted.
\<close>

theorem disallowed_character_rejected:
  assumes "\<exists>c\<in>set input. \<not> allowedBy (identifier config) c"
  shows "validate input config byteSize =
           (if configConflict config byteSize then Inl (HexaUrlError InvalidConfig)
            else if tooShort input config then Inl (HexaUrlError StringTooShort)
            else if tooLong input config byteSize then Inl (HexaUrlError StringTooLong)
            else Inl (HexaUrlError InvalidCharacter))"
proof -
  from assms have "\<not> test (getPatternForIdentifier (identifier config)) input"
    by (auto simp: test_pattern_iff)
  then show ?thesis
    by (simp add: validate_unfold)
qed

theorem disallowed_character_rejected_witness:
  "validate (js ''a!b'') defaultConfig 16 = Inl (HexaUrlError InvalidCharacter)
   \<and> validate (js ''a!'') defaultConfig 16 = Inl (HexaUrlError StringTooShort)"
proof -
  have h1: "\<exists>c\<in>set (js ''a!b''). \<not> allowedBy (identifier defaultConfig) c"
    by (simp add: js_def allowedBy_cases defaultConfig_def)
  have h2: "\<exists>c\<in>set (js ''a!''). \<not> allowedBy (identifier defaultConfig) c"
    by (simp add: js_def allowedBy_cases defaultConfig_def)
  show ?thesis
    using disallowed_character_rejected [OF h1, of 16] disallowed_character_rejected [OF h2, of 16]
    by (simp add: configConflict_def tooShort_def tooLong_def effectiveMax_def calcStrLen_def
        defaultConfig_def js_def)
qed

section \<open>What the length counts\<close>

text \<open>
  Claim C6 says that the length is the number of characters (Unicode scalar values). The
  code reads \<open>input.length\<close>, the number of UTF-16 code units. Eleven fox emoji are eleven
  characters, within the default bounds 3 and 21, so by the claim they would reach the
  composition step and fail with \<open>InvalidCharacter\<close>; they are 22 code units and fail with
  \<open>StringTooLong\<close>.
\<close>

theorem length_counts_characters_counterexample:
  "characterCount (concat (replicate 11 [0xD83E, 0xDD8A])) = 11
   \<and> length (concat (replicate 11 [0xD83E, 0xDD8A]) :: jsstring) = 22
   \<and> \<not> tooShort (concat (replicate 11 [0xD83E, 0xDD8A])) defaultConfig
   \<and> (11 :: rat) \<le> effectiveMax defaultConfig 16
   \<and> validate (concat (replicate 11 [0xD83E, 0xDD8A])) defaultConfig 16
       = Inl (HexaUrlError StringTooLong)
   \<and> validate (concat (replicate 11 [0xD83E, 0xDD8A])) defaultConfig 16
       \<noteq> Inl (HexaUrlError InvalidCharacter)
   \<and> characterCount [0xD83E, 0xDD8A] = 1 \<and> length [0xD83E :: codeUnit, 0xDD8A] = 2"
  by code_simp

text \<open>
  Claim C6, amended: the length is the number of UTF-16 code units, which is the number of
  characters plus the number of surrogate pairs. An input with a code unit above \<open>0x7F\<close>
  is measured in code units by the configuration, minimum and maximum checks and, when it
  passes them, is rejected at the composition step with \<open>InvalidCharacter\<close>;
  \<open>isEncodingSafe\<close> is false for it, and is true only for inputs whose number of code
  units is at most \<open>calcStrLen(byteSize)\<close>.
\<close>

theorem length_counts_code_units:
  "length input = characterCount input + surrogatePairs input
   \<and> ((\<exists>c\<in>set input. \<not> c \<le> 0x7F) \<longrightarrow>
        validate input config byteSize =
          (if configConflict config byteSize then Inl (HexaUrlError InvalidConfig)
           else if tooShort input config then Inl (HexaUrlError StringTooShort)
           else if tooLong input config byteSize then Inl (HexaUrlError StringTooLong)
           else Inl (HexaUrlError InvalidCharacter))
        \<and> \<not> isEncodingSafe input byteSize)
   \<and> (isEncodingSafe input byteSize \<longrightarrow> of_nat (length input) \<le> calcStrLen byteSize)"
proof (intro conjI impI)
  show "length input = characterCount input + surrogatePairs input"
    by (rule length_characterCount)
next
  assume a: "\<exists>c\<in>set input. \<not> c \<le> 0x7F"
  then have "\<not> test (getPatternForIdentifier (identifier config)) input"
    by (auto simp: test_pattern_iff dest: allowedBy_ascii)
  then show "validate input config byteSize =
          (if configConflict config byteSize then Inl (HexaUrlError InvalidConfig)
           else if tooShort input config then Inl (HexaUrlError StringTooShort)
           else if tooLong input config byteSize then Inl (HexaUrlError StringTooLong)
           else Inl (HexaUrlError InvalidCharacter))"
    by (simp add: validate_unfold)
  from a show "\<not> isEncodingSafe input byteSize"
    by (auto simp: isEncodingSafe_def test_ASCII_ONLY)
next
  assume "isEncodingSafe input byteSize"
  then show "of_nat (length input) \<le> calcStrLen byteSize"
    by (simp add: isEncodingSafe_def)
qed

text \<open>
  Two fox emoji: two characters, below the default minimum 3, yet four code units, so the
  minimum check passes and the composition check rejects them.
\<close>

theorem length_counts_code_units_witness:
  "validate [0xD83E, 0xDD8A, 0xD83E, 0xDD8A] defaultConfig 16
     = Inl (HexaUrlError InvalidCharacter)
   \<and> \<not> isEncodingSafe [0xD83E, 0xDD8A, 0xD83E, 0xDD8A] 16
   \<and> characterCount [0xD83E, 0xDD8A, 0xD83E, 0xDD8A] = 2
   \<and> surrogatePairs [0xD83E, 0xDD8A, 0xD83E, 0xDD8A] = 2"
proof -
  have h: "\<exists>c\<in>set [0xD83E, 0xDD8A, 0xD83E, 0xDD8A :: codeUnit]. \<not> c \<le> 0x7F"
    by simp
  show ?thesis
    using length_counts_code_units [of "[0xD83E, 0xDD8A, 0xD83E, 0xDD8A]" defaultConfig 16] h
    by (simp add: configConflict_def tooShort_def tooLong_def effectiveMax_def calcStrLen_def
        defaultConfig_def isHighSurrogate_def isLowSurrogate_def)
qed

section \<open>The empty string\<close>

text \<open>
  Claim C7: for every configuration with \<open>minLength\<close> absent, \<open>validate\<close> of the empty
  string fails with \<open>InvalidCharacter\<close>, because each of the four composition patterns
  asks for at least one character. The byte size and \<open>maxLength\<close>, when present, are
  non-negative, as the data model of the specification has them.
\<close>

theorem empty_string_fails_composition:
  assumes "minLength config = None"
    and "0 \<le> byteSize"
    and "case maxLength config of None \<Rightarrow> True | Some mx \<Rightarrow> 0 \<le> mx"
  shows "validate [] config byteSize = Inl (HexaUrlError InvalidCharacter)
         \<and> \<not> test (getPatternForIdentifier composition) []"
proof -
  have "0 \<le> calcStrLen byteSize"
    using assms(2) by (simp add: calcStrLen_def)
  with assms(3) have "0 \<le> effectiveMax config byteSize"
    by (simp add: effectiveMax_def split: option.splits)
  then have "\<not> tooLong [] config byteSize"
    by (simp add: tooLong_def)
  moreover have "\<not> configConflict config byteSize" "\<not> tooShort [] config"
    using assms(1) by (simp_all add: configConflict_def tooShort_def)
  moreover have "\<not> test (getPatternForIdentifier i) []" for i
    by (simp add: test_pattern_iff)
  ultimately show ?thesis
    by (simp add: validate_unfold)
qed

text \<open>The configuration of \<open>Config.minimal()\<close>, with the default byte size.\<close>

theorem empty_string_fails_composition_witness:
  "validate []
     \<lparr>minLength = None, maxLength = None, identifier = AlphanumericHyphenUnderscore,
      delimiter = Some createAllowedDelimiterRules\<rparr> 16 = Inl (HexaUrlError InvalidCharacter)
   \<and> Config_minimal =
       Inr \<lparr>minLength = None, maxLength = None, identifier = AlphanumericHyphenUnderscore,
            delimiter = Some createAllowedDelimiterRules\<rparr>"
  using empty_string_fails_composition
    [of "\<lparr>minLength = None, maxLength = None, identifier = AlphanumericHyphenUnderscore,
          delimiter = Some createAllowedDelimiterRules\<rparr>" 16]
  by (simp add: Config_minimal_def newConfig_def Config_validate_def)

section \<open>Each delimiter flag gates its own pattern\<close>

text \<open>
  Claim C8: take any of the five delimiter flags and an input that passes the checks
  before the delimiter stage and shows the forbidden pattern of that flag and of no other
  flag. With the flag false, \<open>validate\<close> fails with the error of that flag; with the flag
  true and everything else unchanged, it succeeds. The other four flags may have any
  value.
\<close>

theorem delimiter_flag_gates_its_pattern:
  assumes "earlierChecksPass input config byteSize"
    and "forbiddenPattern f input"
    and "\<forall>g. g \<noteq> f \<longrightarrow> \<not> forbiddenPattern g input"
  shows "validate input (config\<lparr>delimiter := Some (setFlag f False r)\<rparr>) byteSize
           = Inl (HexaUrlError (errorOfFlag f))
         \<and> validate input (config\<lparr>delimiter := Some (setFlag f True r)\<rparr>) byteSize = Inr ()"
proof -
  have others: "g \<noteq> f \<Longrightarrow> \<not> forbiddenPattern g input" for g
    using assms(3) by blast
  show ?thesis
  proof (cases f)
    case LeadingTrailingHyphens
    with assms(2) others [of LeadingTrailingUnderscores] others [of ConsecutiveHyphenPair]
      others [of ConsecutiveUnderscorePair] others [of AdjacentHyphenUnderscorePair]
    show ?thesis
      by (simp add: validate_delimiter_stage [OF assms(1)] validateDelimiters_unfold outcome_def)
  next
    case LeadingTrailingUnderscores
    with assms(2) others [of LeadingTrailingHyphens] others [of ConsecutiveHyphenPair]
      others [of ConsecutiveUnderscorePair] others [of AdjacentHyphenUnderscorePair]
    show ?thesis
      by (simp add: validate_delimiter_stage [OF assms(1)] validateDelimiters_unfold outcome_def)
  next
    case ConsecutiveHyphenPair
    with assms(2) others [of LeadingTrailingHyphens] others [of LeadingTrailingUnderscores]
      others [of ConsecutiveUnderscorePair] others [of AdjacentHyphenUnderscorePair]
    show ?thesis
      by (simp add: validate_delimiter_stage [OF assms(1)] validateDelimiters_unfold outcome_def)
  next
    case ConsecutiveUnderscorePair
    with assms(2) others [of LeadingTrailingHyphens] others [of LeadingTrailingUnderscores]
      others [of ConsecutiveHyphenPair] others [of AdjacentHyphenUnderscorePair]
    show ?thesis
      by (simp add: validate_delimiter_stage [OF assms(1)] validateDelimiters_unfold outcome_def)
  next
    case AdjacentHyphenUnderscorePair
    with assms(2) others [of LeadingTrailingHyphens] others [of LeadingTrailingUnderscores]
      others [of ConsecutiveHyphenPair] others [of ConsecutiveUnderscorePair]
    show ?thesis
      by (simp add: validate_delimiter_stage [OF assms(1)] validateDelimiters_unfold outcome_def)
  qed
qed

text \<open>
  Scenario 4 of the specification, \<open>-test-\<close> with the first flag false and true, and one
  input for each of the other four flags, under the composition that allows both
  delimiters.
\<close>

theorem delimiter_flag_gates_its_pattern_witness:
  "validate (js ''-test-'')
     (defaultConfig\<lparr>delimiter := Some (createDelimiterRules noOverrides)\<rparr>) 16
     = Inl (HexaUrlError LeadingTrailingHyphen)
   \<and> validate (js ''-test-'')
       (defaultConfig\<lparr>delimiter := Some
          (createDelimiterRules (noOverrides\<lparr>optAllowLeadingTrailingHyphens := Some True\<rparr>))\<rparr>) 16
     = Inr ()
   \<and> validate (js ''_ab'')
       (defaultConfig\<lparr>identifier := AlphanumericHyphenUnderscore, delimiter := Some
          (createDelimiterRules noOverrides)\<rparr>) 16
     = Inl (HexaUrlError LeadingTrailingUnderscore)
   \<and> validate (js ''_ab'')
       (defaultConfig\<lparr>identifier := AlphanumericHyphenUnderscore, delimiter := Some
          (createDelimiterRules (noOverrides\<lparr>optAllowLeadingTrailingUnderscores := Some True\<rparr>))\<rparr>)
       16
     = Inr ()
   \<and> validate (js ''a--b'')
       (defaultConfig\<lparr>identifier := AlphanumericHyphenUnderscore, delimiter := Some
          (createDelimiterRules noOverrides)\<rparr>) 16
     = Inl (HexaUrlError ConsecutiveHyphens)
   \<and> validate (js ''a--b'')
       (defaultConfig\<lparr>identifier := AlphanumericHyphenUnderscore, delimiter := Some
          (createDelimiterRules (noOverrides\<lparr>optAllowConsecutiveHyphens := Some True\<rparr>))\<rparr>) 16
     = Inr ()
   \<and> validate (js ''a__b'')
       (defaultConfig\<lparr>identifier := AlphanumericHyphenUnderscore, delimiter := Some
          (createDelimiterRules noOverrides)\<rparr>) 16
     = Inl (HexaUrlError ConsecutiveUnderscores)
   \<and> validate (js ''a__b'')
       (defaultConfig\<lparr>identifier := AlphanumericHyphenUnderscore, delimiter := Some
          (createDelimiterRules (noOverrides\<lparr>optAllowConsecutiveUnderscores := Some True\<rparr>))\<rparr>) 16
     = Inr ()
   \<and> validate (js ''a_-b'')
       (defaultConfig\<lparr>identifier := AlphanumericHyphenUnderscore, delimiter := Some
          (createDelimiterRules noOverrides)\<rparr>) 16
     = Inl (HexaUrlError AdjacentHyphenUnderscore)
   \<and> validate (js ''a_-b'')
       (defaultConfig\<lparr>identifier := AlphanumericHyphenUnderscore, delimiter := Some
          (createDelimiterRules (noOverrides\<lparr>optAllowAdjacentHyphenUnderscore := Some True\<rparr>))\<rparr>) 16
     = Inr ()"
proof -
  let ?both = "defaultConfig\<lparr>identifier := AlphanumericHyphenUnderscore\<rparr>"
  let ?strict = "createDelimiterRules noOverrides"
  have p1: "earlierChecksPass (js ''-test-'') defaultConfig 16"
    by (simp add: earlierChecksPass_def eval_defs)
  have p2: "earlierChecksPass (js ''_ab'') ?both 16"
    by (simp add: earlierChecksPass_def eval_defs)
  have p3: "earlierChecksPass (js ''a--b'') ?both 16"
    by (simp add: earlierChecksPass_def eval_defs)
  have p4: "earlierChecksPass (js ''a__b'') ?both 16"
    by (simp add: earlierChecksPass_def eval_defs)
  have p5: "earlierChecksPass (js ''a_-b'') ?both 16"
    by (simp add: earlierChecksPass_def eval_defs)
  have f1: "forbiddenPattern LeadingTrailingHyphens (js ''-test-'')"
    by (simp add: js_def startsWith_def)
  have f2: "forbiddenPattern LeadingTrailingUnderscores (js ''_ab'')"
    by (simp add: js_def startsWith_def)
  have f3: "forbiddenPattern ConsecutiveHyphenPair (js ''a--b'')"
    by (simp add: js_def startsWith_def)
  have f4: "forbiddenPattern ConsecutiveUnderscorePair (js ''a__b'')"
    by (simp add: js_def startsWith_def)
  have f5: "forbiddenPattern AdjacentHyphenUnderscorePair (js ''a_-b'')"
    by (simp add: js_def startsWith_def)
  have o1: "\<forall>g. g \<noteq> LeadingTrailingHyphens \<longrightarrow> \<not> forbiddenPattern g (js ''-test-'')"
  proof (intro allI impI)
    fix g :: delimiterFlag
    assume "g \<noteq> LeadingTrailingHyphens"
    then show "\<not> forbiddenPattern g (js ''-test-'')"
      by (cases g) (simp_all add: js_def startsWith_def endsWith_def)
  qed
  have o2: "\<forall>g. g \<noteq> LeadingTrailingUnderscores \<longrightarrow> \<not> forbiddenPattern g (js ''_ab'')"
  proof (intro allI impI)
    fix g :: delimiterFlag
    assume "g \<noteq> LeadingTrailingUnderscores"
    then show "\<not> forbiddenPattern g (js ''_ab'')"
      by (cases g) (simp_all add: js_def startsWith_def endsWith_def)
  qed
  have o3: "\<forall>g. g \<noteq> ConsecutiveHyphenPair \<longrightarrow> \<not> forbiddenPattern g (js ''a--b'')"
  proof (intro allI impI)
    fix g :: delimiterFlag
    assume "g \<noteq> ConsecutiveHyphenPair"
    then show "\<not> forbiddenPattern g (js ''a--b'')"
      by (cases g) (simp_all add: js_def startsWith_def endsWith_def)
  qed
  have o4: "\<forall>g. g \<noteq> ConsecutiveUnderscorePair \<longrightarrow> \<not> forbiddenPattern g (js ''a__b'')"
  proof (intro allI impI)
    fix g :: delimiterFlag
    assume "g \<noteq> ConsecutiveUnderscorePair"
    then show "\<not> forbiddenPattern g (js ''a__b'')"
      by (cases g) (simp_all add: js_def startsWith_def endsWith_def)
  qed
  have o5: "\<forall>g. g \<noteq> AdjacentHyphenUnderscorePair \<longrightarrow> \<not> forbiddenPattern g (js ''a_-b'')"
  proof (intro allI impI)
    fix g :: delimiterFlag
    assume "g \<noteq> AdjacentHyphenUnderscorePair"
    then show "\<not> forbiddenPattern g (js ''a_-b'')"
      by (cases g) (simp_all add: js_def startsWith_def endsWith_def)
  qed
  show ?thesis
    using delimiter_flag_gates_its_pattern [OF p1 f1 o1, of ?strict]
      delimiter_flag_gates_its_pattern [OF p2 f2 o2, of ?strict]
      delimiter_flag_gates_its_pattern [OF p3 f3 o3, of ?strict]
      delimiter_flag_gates_its_pattern [OF p4 f4 o4, of ?strict]
      delimiter_flag_gates_its_pattern [OF p5 f5 o5, of ?strict]
    by (simp add: createDelimiterRules_def noOverrides_def)
qed

section \<open>Failure at construction and failure at validation\<close>

text \<open>
  Claim C9: constructing a configuration fails exactly when the minimum and the maximum
  length the constructor receives are both present and the minimum is greater than the
  maximum. \<open>Config.create\<close> and \<open>createConfig\<close> pass \<open>options.minLength ?? 3\<close> and
  \<open>options.maxLength ?? null\<close> to the constructor, so they fail exactly when a maximum is
  given and that minimum exceeds it. The failure is a plain \<open>Error\<close> and never a
  \<open>HexaUrlError\<close> with a code. \<open>validate\<close> never throws a plain \<open>Error\<close>; it throws
  \<open>HexaUrlError\<close> with code \<open>InvalidConfig\<close> exactly when the minimum length is present and
  the effective maximum is below it. A caller can therefore tell the two failures apart.
\<close>

theorem construction_failure_is_plain_error:
  "(isl (newConfig mn mx i d) \<longleftrightarrow> (\<exists>a b. mn = Some a \<and> mx = Some b \<and> a > b))
   \<and> (isl (Config_create options) \<longleftrightarrow>
        (\<exists>b. orNull (optMaxLength options) = Some b
             \<and> orDefault (optMinLength options) DEFAULT_MIN_LENGTH > b))
   \<and> createConfig options = Config_create options
   \<and> newConfig mn mx i d \<noteq> Inl (HexaUrlError code)
   \<and> Config_create options \<noteq> Inl (HexaUrlError code)
   \<and> (isl (newConfig mn mx i d) \<longrightarrow>
        newConfig mn mx i d =
          Inl (Error ''Minimum length cannot be greater than maximum length''))
   \<and> validate input config byteSize \<noteq> Inl (Error m)
   \<and> (validate input config byteSize = Inl (HexaUrlError InvalidConfig) \<longleftrightarrow>
        (\<exists>mn'. minLength config = Some mn' \<and> effectiveMax config byteSize < mn'))"
proof (intro conjI)
  show "validate input config byteSize \<noteq> Inl (Error m)"
    by (rule validate_not_plain)
  show "(validate input config byteSize = Inl (HexaUrlError InvalidConfig)) \<longleftrightarrow>
        (\<exists>mn'. minLength config = Some mn' \<and> effectiveMax config byteSize < mn')"
    by (simp add: validate_InvalidConfig_iff configConflict_def split: option.splits)
qed (simp_all add: newConfig_eq Config_create_def createConfig_def)

text \<open>
  \<open>new Config(5, 2)\<close> and \<open>createConfig({maxLength: 2})\<close> fail at construction;
  \<open>createConfig({minLength: 30})\<close> succeeds, and validation with it and 16 bytes fails
  with \<open>InvalidConfig\<close>.
\<close>

theorem construction_failure_is_plain_error_witness:
  "newConfig (Some 5) (Some 2) Alphanumeric None =
     Inl (Error ''Minimum length cannot be greater than maximum length'')
   \<and> isl (Config_create (noOptions\<lparr>optMaxLength := Val 2\<rparr>))
   \<and> \<not> isl (Config_create (noOptions\<lparr>optMinLength := Val 30\<rparr>))
   \<and> validate (js ''abc'') \<lparr>minLength = Some 30, maxLength = None,
        identifier = AlphanumericHyphen, delimiter = None\<rparr> 16
       = Inl (HexaUrlError InvalidConfig)"
  using construction_failure_is_plain_error
      [of "Some 5" "Some 2" Alphanumeric None "noOptions\<lparr>optMaxLength := Val 2\<rparr>" InvalidConfig
          "js ''abc''"
          "\<lparr>minLength = Some 30, maxLength = None, identifier = AlphanumericHyphen,
            delimiter = None\<rparr>" 16 "''x''"]
    construction_failure_is_plain_error
      [of "Some 5" "Some 2" Alphanumeric None "noOptions\<lparr>optMinLength := Val 30\<rparr>" InvalidConfig
          "js ''abc''"
          "\<lparr>minLength = Some 30, maxLength = None, identifier = AlphanumericHyphen,
            delimiter = None\<rparr>" 16 "''x''"]
  by (simp add: noOptions_def DEFAULT_MIN_LENGTH_def effectiveMax_def calcStrLen_def)

section \<open>The minimum length after \<open>createConfig\<close>\<close>

text \<open>
  Claim C10: \<open>Config.create\<close> and \<open>createConfig\<close> replace a \<open>null\<close> (or missing)
  \<open>minLength\<close> option by the default 3, so a configuration they return always has a
  minimum length. A configuration without one comes from \<open>Config.minimal()\<close> or from the
  constructor called with \<open>null\<close>.
\<close>

theorem createConfig_minLength_never_null:
  "(createConfig options = Inr config \<longrightarrow>
      minLength config = Some (orDefault (optMinLength options) DEFAULT_MIN_LENGTH))
   \<and> createConfig (options\<lparr>optMinLength := Null\<rparr>)
       = createConfig (options\<lparr>optMinLength := Val 3\<rparr>)
   \<and> createConfig (options\<lparr>optMinLength := Undefined\<rparr>)
       = createConfig (options\<lparr>optMinLength := Val 3\<rparr>)
   \<and> (\<exists>c. Config_minimal = Inr c \<and> minLength c = None)
   \<and> (\<exists>c. newConfig None mx i d = Inr c \<and> minLength c = None)"
  by (auto simp: createConfig_def Config_create_def newConfig_eq Config_minimal_def
      DEFAULT_MIN_LENGTH_def split: if_splits)

theorem createConfig_minLength_never_null_witness:
  "createConfig (noOptions\<lparr>optMinLength := Null\<rparr>) = Inr defaultConfig
   \<and> minLength defaultConfig = Some 3"
  using createConfig_minLength_never_null
    [of "noOptions\<lparr>optMinLength := Null\<rparr>" defaultConfig]
  by (simp add: createConfig_def Config_create_def newConfig_eq noOptions_def defaultConfig_def
      DEFAULT_MIN_LENGTH_def)

section \<open>Scenarios of the specification\<close>

text \<open>
  With the default configuration: \<open>abc123\<close> passes and the empty string is too short;
  with 8 bytes ten letters pass and eleven are too long; with 32 bytes the bound is 42.
\<close>

theorem specification_scenarios:
  "validateDefault (js ''abc123'') = Inr ()
   \<and> validateDefault [] = Inl (HexaUrlError StringTooShort)
   \<and> validate (replicate 11 (of_char CHR ''a'')) defaultConfig 8
       = Inl (HexaUrlError StringTooLong)
   \<and> validate (replicate 10 (of_char CHR ''a'')) defaultConfig 8 = Inr ()
   \<and> validate (replicate 43 (of_char CHR ''a'')) defaultConfig 32
       = Inl (HexaUrlError StringTooLong)
   \<and> validate (replicate 42 (of_char CHR ''a'')) defaultConfig 32 = Inr ()"
  by code_simp

section \<open>The earlier interface\<close>

text \<open>
  \<open>validateWithConfig\<close> of the earlier revision differs from \<open>validate\<close>: with an absent
  \<open>delimiter\<close> field it runs no delimiter check at all, and it never reports
  \<open>InvalidConfig\<close>. Through it, \<open>too--many-hyphens\<close> passes under the default
  configuration.
\<close>

theorem validateWithConfig_skips_absent_delimiter:
  "(delimiter config = None \<longrightarrow>
      validateWithConfig input config byteSize =
        (if tooShort input config then Inl (HexaUrlError StringTooShort)
         else if tooLong input config byteSize then Inl (HexaUrlError StringTooLong)
         else if \<not> test (getPatternForIdentifier (identifier config)) input
           then Inl (HexaUrlError InvalidCharacter)
         else Inr ()))
   \<and> validateWithConfig input config byteSize \<noteq> Inl (HexaUrlError InvalidConfig)
   \<and> validate_legacy (js ''too--many-hyphens'') 16 = Inr ()"
proof (intro conjI impI)
  assume "delimiter config = None"
  then show "validateWithConfig input config byteSize =
        (if tooShort input config then Inl (HexaUrlError StringTooShort)
         else if tooLong input config byteSize then Inl (HexaUrlError StringTooLong)
         else if \<not> test (getPatternForIdentifier (identifier config)) input
           then Inl (HexaUrlError InvalidCharacter)
         else Inr ())"
    by (simp add: validateWithConfig_unfold)
next
  show "validateWithConfig input config byteSize \<noteq> Inl (HexaUrlError InvalidConfig)"
    by (simp add: validateWithConfig_unfold validateDelimiters_not_InvalidConfig
        split: option.splits)
next
  show "validate_legacy (js ''too--many-hyphens'') 16 = Inr ()"
    by (simp add: validate_legacy_def Config_create_noOptions validateWithConfig_unfold
        tooShort_def tooLong_def effectiveMax_def calcStrLen_def defaultConfig_def js_def
        PATTERNS_ALPHANUMERIC_HYPHEN_def alnum_def inClass_def)
qed

theorem validateWithConfig_skips_absent_delimiter_witness:
  "validateWithConfig (js ''-a--b-'') defaultConfig 16 = Inr ()"
  using validateWithConfig_skips_absent_delimiter [of defaultConfig "js ''-a--b-''" 16]
  by (simp add: tooShort_def tooLong_def effectiveMax_def calcStrLen_def defaultConfig_def js_def
        PATTERNS_ALPHANUMERIC_HYPHEN_def alnum_def inClass_def)

end
